theory Spec2Isabelle
  imports Complex_Main
begin

section \<open>Gibbs sampling for Bayesian simple linear regression\<close>

text \<open>
  The notebook defines three conditional samplers (\<open>sample_beta_0\<close>, \<open>sample_beta_1\<close>,
  \<open>sample_tau\<close>) and the driver \<open>gibbs\<close>; an earlier draft of the notebook holds another
  version of \<open>sample_beta_0\<close>.

  Modelling decisions:
  \<^item> Python and numpy floats are idealised as \<^typ>\<open>real\<close>; rounding and overflow are not
    modelled. Where IEEE arithmetic would leave the reals (a division by zero gives
    \<open>inf\<close> or \<open>NaN\<close>, the square root of a negative number gives \<open>NaN\<close>; numpy warns but
    raises nothing) the model stops with the outcome \<open>NonFinite\<close> rather than use HOL's
    \<open>x / 0 = 0\<close>. A second model, over float64 values with overflow, infinities and
    \<open>NaN\<close>, follows the first; the sign of the precisions in the trace is settled there.
  \<^item> A one-dimensional numpy array is a \<^typ>\<open>real list\<close>; binary operations on two arrays
    follow numpy's broadcasting of one-dimensional shapes.
  \<^item> Every exception is a value of \<open>error\<close>; a function that may raise returns an
    \<open>outcome\<close>.
  \<^item> The global random source of \<open>np.random\<close> is an explicit state of type \<open>'g\<close>. The two
    generators \<open>np.random.normal(loc, scale)\<close> and \<open>np.random.gamma(shape, scale)\<close> are
    numpy's, not the notebook's: they are parameters of the model, each taking the state
    and returning a draw with the next state, or raising.
  \<^item> The dictionaries \<open>init\<close> and \<open>hypers\<close> are maps from strings; a missing key raises
    \<open>KeyError\<close> at the moment the code reads it.
\<close>

subsection \<open>Outcomes\<close>

datatype error = AssertionError | ValueError | KeyError | TypeError

datatype 'a outcome = Raised error | NonFinite | Returned 'a

fun obind :: "'a outcome \<Rightarrow> ('a \<Rightarrow> 'b outcome) \<Rightarrow> 'b outcome" where
  "obind (Raised e) f = Raised e"
| "obind NonFinite f = NonFinite"
| "obind (Returned v) f = f v"

subsection \<open>The numpy operations the notebook uses\<close>

text \<open>
  \<open>a op b\<close> on two one-dimensional arrays: elementwise when the lengths agree, an array of
  length one is stretched to the other's length, anything else raises \<open>ValueError\<close>
  (operands could not be broadcast together).
\<close>

definition np_binop :: "('a \<Rightarrow> 'a \<Rightarrow> 'a) \<Rightarrow> 'a list \<Rightarrow> 'a list \<Rightarrow> 'a list outcome" where
  "np_binop f a b =
     (if length a = length b then Returned (map2 f a b)
      else if length a = 1 then Returned (map (f (hd a)) b)
      else if length b = 1 then Returned (map (\<lambda>v. f v (hd b)) a)
      else Raised ValueError)"

type_synonym 'g generator = "real \<Rightarrow> real \<Rightarrow> 'g \<Rightarrow> (real \<times> 'g) outcome"

text \<open>
  \<open>np.random.normal(loc, scale)\<close> with two arrays of the same length draws one value per
  element, left to right.
\<close>

fun np_random_normal_array :: "'g generator \<Rightarrow> real list \<Rightarrow> real list \<Rightarrow> 'g \<Rightarrow> (real list \<times> 'g) outcome" where
  "np_random_normal_array nrm [] [] g = Returned ([], g)"
| "np_random_normal_array nrm (m # ms) (s # ss) g =
     obind (nrm m s g) (\<lambda>(v, g1).
     obind (np_random_normal_array nrm ms ss g1) (\<lambda>(vs, g2).
     Returned (v # vs, g2)))"
| "np_random_normal_array nrm _ _ g = Raised ValueError"

subsection \<open>The conditional samplers\<close>

text \<open>
  \<^verbatim>\<open>
  def sample_beta_0(y, x, beta_1, tau, mu_0, tau_0):
      N = len(y)
      assert len(x) == N
      precision = tau_0 + tau * N
      mean = tau_0 * mu_0 + tau * np.sum(y - beta_1 * x)
      mean /= precision
      return np.random.normal(mean, 1 / np.sqrt(precision))
  \<close>
  \<open>mean /= precision\<close> is not finite when \<open>precision = 0\<close>, and \<open>np.sqrt(precision)\<close> is
  \<open>NaN\<close> when \<open>precision < 0\<close>.
\<close>

definition sample_beta_0 ::
  "'g generator \<Rightarrow> real list \<Rightarrow> real list \<Rightarrow> real \<Rightarrow> real \<Rightarrow> real \<Rightarrow> real \<Rightarrow> 'g \<Rightarrow> (real \<times> 'g) outcome" where
  "sample_beta_0 nrm y x beta_1 tau mu_0 tau_0 g =
     (let N = length y in
      if length x \<noteq> N then Raised AssertionError
      else
        let precision = tau_0 + tau * real N in
        obind (np_binop (-) y (map ((*) beta_1) x)) (\<lambda>d.
          let mean = tau_0 * mu_0 + tau * sum_list d in
          if precision \<le> 0 then NonFinite
          else nrm (mean / precision) (1 / sqrt precision) g))"

text \<open>
  \<^verbatim>\<open>
  def sample_beta_1(y, x, beta_0, tau, mu_1, tau_1):
      N = len(y)
      assert len(x) == N
      precision = tau_1 + tau * np.sum(x * x)
      mean = tau_1 * mu_1 + tau * np.sum( (y - beta_0) * x)
      mean /= precision
      return np.random.normal(mean, 1 / np.sqrt(precision))
  \<close>
\<close>

definition sample_beta_1 ::
  "'g generator \<Rightarrow> real list \<Rightarrow> real list \<Rightarrow> real \<Rightarrow> real \<Rightarrow> real \<Rightarrow> real \<Rightarrow> 'g \<Rightarrow> (real \<times> 'g) outcome" where
  "sample_beta_1 nrm y x beta_0 tau mu_1 tau_1 g =
     (let N = length y in
      if length x \<noteq> N then Raised AssertionError
      else
        obind (np_binop (*) x x) (\<lambda>xx.
          let precision = tau_1 + tau * sum_list xx in
          obind (np_binop (*) (map (\<lambda>v. v - beta_0) y) x) (\<lambda>d.
            let mean = tau_1 * mu_1 + tau * sum_list d in
            if precision \<le> 0 then NonFinite
            else nrm (mean / precision) (1 / sqrt precision) g)))"

text \<open>
  \<^verbatim>\<open>
  def sample_tau(y, x, beta_0, beta_1, alpha, beta):
      N = len(y)
      alpha_new = alpha + N / 2
      resid = y - beta_0 - beta_1 * x
      beta_new = beta + np.sum(resid * resid) / 2
      return np.random.gamma(alpha_new, 1 / beta_new)
  \<close>
  There is no assertion on the lengths here: \<open>y - beta_0 - beta_1 * x\<close> broadcasts.
  \<open>N / 2\<close> is Python 3's true division. \<open>1 / beta_new\<close> is \<open>inf\<close> when \<open>beta_new = 0\<close>.
\<close>

definition sample_tau ::
  "'g generator \<Rightarrow> real list \<Rightarrow> real list \<Rightarrow> real \<Rightarrow> real \<Rightarrow> real \<Rightarrow> real \<Rightarrow> 'g \<Rightarrow> (real \<times> 'g) outcome" where
  "sample_tau gam y x beta_0 beta_1 alpha beta g =
     (let N = length y;
          alpha_new = alpha + real N / 2 in
      obind (np_binop (-) (map (\<lambda>v. v - beta_0) y) (map ((*) beta_1) x)) (\<lambda>resid.
      obind (np_binop (*) resid resid) (\<lambda>rr.
        let beta_new = beta + sum_list rr / 2 in
        if beta_new = 0 then NonFinite
        else gam alpha_new (1 / beta_new) g)))"

subsection \<open>The driver\<close>

definition lookup :: "(string \<rightharpoonup> 'v) \<Rightarrow> string \<Rightarrow> 'v outcome" where
  "lookup d k = (case d k of None \<Rightarrow> Raised KeyError | Some v \<Rightarrow> Returned v)"

type_synonym row = "real \<times> real \<times> real"

text \<open>
  \<^verbatim>\<open>
  def gibbs(y, x, iters, init, hypers):
      assert len(y) == len(x)
      beta_0 = init["beta_0"]
      beta_1 = init["beta_1"]
      tau = init["tau"]

      trace = np.zeros((iters, 3)) ## trace to store values of beta_0, beta_1, tau

      for it in range(iters):
          beta_0 = sample_beta_0(y, x, beta_1, tau, hypers["mu_0"], hypers["tau_0"])
          beta_1 = sample_beta_1(y, x, beta_0, tau, hypers["mu_1"], hypers["tau_1"])
          tau = sample_tau(y, x, beta_0, beta_1, hypers["alpha"], hypers["beta"])
          trace[it,:] = np.array((beta_0, beta_1, tau))

      return trace
  \<close>
  The loop body runs once for each index of \<open>range(iters)\<close>; the trace is the matrix of
  zeros with row \<open>it\<close> overwritten. \<open>np.zeros\<close> raises \<open>ValueError\<close> on a negative
  dimension. The model returns the random source's final state next to the trace.
\<close>

fun gibbs_loop ::
  "'g generator \<Rightarrow> 'g generator \<Rightarrow> real list \<Rightarrow> real list \<Rightarrow> (string \<rightharpoonup> real) \<Rightarrow>
   nat list \<Rightarrow> row \<Rightarrow> row list \<Rightarrow> 'g \<Rightarrow> (row list \<times> 'g) outcome" where
  "gibbs_loop nrm gam y x hypers [] (beta_0, beta_1, tau) trace g = Returned (trace, g)"
| "gibbs_loop nrm gam y x hypers (it # its) (beta_0, beta_1, tau) trace g =
     obind (lookup hypers ''mu_0'') (\<lambda>mu_0.
     obind (lookup hypers ''tau_0'') (\<lambda>tau_0.
     obind (sample_beta_0 nrm y x beta_1 tau mu_0 tau_0 g) (\<lambda>(beta_0, g1).
     obind (lookup hypers ''mu_1'') (\<lambda>mu_1.
     obind (lookup hypers ''tau_1'') (\<lambda>tau_1.
     obind (sample_beta_1 nrm y x beta_0 tau mu_1 tau_1 g1) (\<lambda>(beta_1, g2).
     obind (lookup hypers ''alpha'') (\<lambda>alpha.
     obind (lookup hypers ''beta'') (\<lambda>beta.
     obind (sample_tau gam y x beta_0 beta_1 alpha beta g2) (\<lambda>(tau, g3).
     gibbs_loop nrm gam y x hypers its (beta_0, beta_1, tau)
       (trace[it := (beta_0, beta_1, tau)]) g3)))))))))"

definition gibbs ::
  "'g generator \<Rightarrow> 'g generator \<Rightarrow> real list \<Rightarrow> real list \<Rightarrow> int \<Rightarrow>
   (string \<rightharpoonup> real) \<Rightarrow> (string \<rightharpoonup> real) \<Rightarrow> 'g \<Rightarrow> (row list \<times> 'g) outcome" where
  "gibbs nrm gam y x iters init hypers g =
     (if length y \<noteq> length x then Raised AssertionError
      else
        obind (lookup init ''beta_0'') (\<lambda>beta_0.
        obind (lookup init ''beta_1'') (\<lambda>beta_1.
        obind (lookup init ''tau'') (\<lambda>tau.
          if iters < 0 then Raised ValueError
          else gibbs_loop nrm gam y x hypers [0..<nat iters] (beta_0, beta_1, tau)
                 (replicate (nat iters) (0, 0, 0)) g))))"

text \<open>
  The notebook's own initial values and hyperparameters:
  \<^verbatim>\<open>
  init = {"beta_0": 0, "beta_1": 0, "tau": 2}
  hypers = {"mu_0": 0, "tau_0": 1, "mu_1": 0, "tau_1": 1, "alpha": 2, "beta": 1}
  \<close>
  (named \<open>init_dict\<close> and \<open>hypers_dict\<close> here, as \<open>init\<close> and \<open>hypers\<close> are the
  parameters of \<open>gibbs\<close>).
\<close>

definition init_dict :: "string \<rightharpoonup> real" where
  "init_dict = [''beta_0'' \<mapsto> 0, ''beta_1'' \<mapsto> 0, ''tau'' \<mapsto> 2]"

definition hypers_dict :: "string \<rightharpoonup> real" where
  "hypers_dict =
     [''mu_0'' \<mapsto> 0, ''tau_0'' \<mapsto> 1, ''mu_1'' \<mapsto> 0, ''tau_1'' \<mapsto> 1, ''alpha'' \<mapsto> 2, ''beta'' \<mapsto> 1]"

subsection \<open>The draft of the intercept sampler\<close>

text \<open>
  The earlier notebook (\<open>gibbs/gibbs_sampling_for_linear_regression.ipynb\<close>) has
  \<^verbatim>\<open>
  def sample_beta_0(y, x, beta_1, tau, tau_0, mu_0):
      N = len(y)
      assert len(x) == N
      assert len(tau_0) == 1
      assert len(mu_0) == 1
      precision = tau_0 + tau * N
      mean = tau_0 * mu_0 + tau * np.sum(y - beta_1 * x)
      mean /= precision
      return np.random.normal(mean, 1 / np.sqrt(precision))
  \<close>
  Its prior parameters come in the order \<open>tau_0, mu_0\<close> and it takes \<open>len\<close> of both, so the
  model gives them the type of a Python value that is a float or a numpy array. \<open>len\<close> of
  a float raises \<open>TypeError\<close>. With arrays, \<open>precision\<close> and \<open>mean\<close> are arrays and the
  result is an array of draws.
\<close>

datatype pyval = Scalar real | Array "real list"

definition sample_beta_0_draft ::
  "'g generator \<Rightarrow> real list \<Rightarrow> real list \<Rightarrow> real \<Rightarrow> real \<Rightarrow> pyval \<Rightarrow> pyval \<Rightarrow> 'g \<Rightarrow> (pyval \<times> 'g) outcome" where
  "sample_beta_0_draft nrm y x beta_1 tau tau_0 mu_0 g =
     (let N = length y in
      if length x \<noteq> N then Raised AssertionError
      else (case tau_0 of
        Scalar _ \<Rightarrow> Raised TypeError
      | Array ts \<Rightarrow>
          if length ts \<noteq> 1 then Raised AssertionError
          else (case mu_0 of
            Scalar _ \<Rightarrow> Raised TypeError
          | Array ms \<Rightarrow>
              if length ms \<noteq> 1 then Raised AssertionError
              else
                let precision = map (\<lambda>t. t + tau * real N) ts in
                obind (np_binop (-) y (map ((*) beta_1) x)) (\<lambda>d.
                obind (np_binop (*) ts ms) (\<lambda>tm.
                  let mean = map (\<lambda>v. v + tau * sum_list d) tm in
                  if list_ex (\<lambda>p. p \<le> 0) precision then NonFinite
                  else
                    obind (np_binop (/) mean precision) (\<lambda>mean.
                    obind (np_random_normal_array nrm mean (map (\<lambda>p. 1 / sqrt p) precision) g)
                      (\<lambda>(vs, g1). Returned (Array vs, g1))))))))"

subsection \<open>The random-variate generators\<close>

text \<open>
  Modelled from the spec: the normal and gamma generators are numpy's and not part of the
  repository. The spec names them as an external collaborator with the capability to
  "produce draws given distribution parameters", and calls a non-positive precision draw
  "structurally impossible given a correct Gamma implementation". So a generator that
  keeps its contract returns a draw when its scale is positive, and a gamma generator
  returns a strictly positive draw when its shape and scale are positive.
\<close>

definition normal_contract :: "'g generator \<Rightarrow> bool" where
  "normal_contract nrm \<longleftrightarrow>
     (\<forall>loc scale g. 0 < scale \<longrightarrow> (\<exists>v g'. nrm loc scale g = Returned (v, g')))"

definition gamma_contract :: "'g generator \<Rightarrow> bool" where
  "gamma_contract gam \<longleftrightarrow>
     (\<forall>shape scale g. 0 < shape \<and> 0 < scale \<longrightarrow>
        (\<exists>v g'. gam shape scale g = Returned (v, g') \<and> 0 < v))"

text \<open>
  A degenerate random source for evaluating the model on concrete inputs: its state
  counts the draws made, every draw is the mean of the requested distribution, and the
  parameters are checked as numpy's generators check them (\<open>scale < 0\<close> and
  \<open>shape < 0\<close> raise \<open>ValueError\<close>).
\<close>

definition mean_normal :: "nat generator" where
  "mean_normal loc scale g = (if scale < 0 then Raised ValueError else Returned (loc, Suc g))"

definition mean_gamma :: "nat generator" where
  "mean_gamma shape scale g =
     (if shape < 0 \<or> scale < 0 then Raised ValueError else Returned (shape * scale, Suc g))"

subsection \<open>The driver as the specification words it\<close>

text \<open>
  The specification's state machine, for comparison with \<open>gibbs\<close>: from the state
  (intercept, slope, precision), each of K iterations draws the intercept from the
  previous slope and precision, then the slope from the new intercept and the previous
  precision, then the precision from the new intercept and the new slope, and appends
  the new triple to the trace; a failing draw ends the run at once.
\<close>

fun run_gibbs_spec ::
  "'g generator \<Rightarrow> 'g generator \<Rightarrow> real list \<Rightarrow> real list \<Rightarrow>
   real \<Rightarrow> real \<Rightarrow> real \<Rightarrow> real \<Rightarrow> real \<Rightarrow> real \<Rightarrow>
   nat \<Rightarrow> row \<Rightarrow> row list \<Rightarrow> 'g \<Rightarrow> (row list \<times> 'g) outcome" where
  "run_gibbs_spec nrm gam y x mu_0 tau_0 mu_1 tau_1 alpha beta 0 state trace g =
     Returned (trace, g)"
| "run_gibbs_spec nrm gam y x mu_0 tau_0 mu_1 tau_1 alpha beta (Suc k)
     (intercept, slope, precision) trace g =
     obind (sample_beta_0 nrm y x slope precision mu_0 tau_0 g) (\<lambda>(intercept', g1).
     obind (sample_beta_1 nrm y x intercept' precision mu_1 tau_1 g1) (\<lambda>(slope', g2).
     obind (sample_tau gam y x intercept' slope' alpha beta g2) (\<lambda>(precision', g3).
     run_gibbs_spec nrm gam y x mu_0 tau_0 mu_1 tau_1 alpha beta k
       (intercept', slope', precision') (trace @ [(intercept', slope', precision')]) g3)))"

subsection \<open>Two runs\<close>

text \<open>
  For comparing two runs: two outcomes are the same when both raise the same error, both
  leave the reals, or both return the same value with random-source states that
  correspond under \<open>R\<close>; two generators give the same draws when, called with the same
  parameters in corresponding states, their outcomes are the same.
\<close>

fun same_outcome :: "('g \<Rightarrow> 'h \<Rightarrow> bool) \<Rightarrow> ('a \<times> 'g) outcome \<Rightarrow> ('a \<times> 'h) outcome \<Rightarrow> bool" where
  "same_outcome R (Returned (v, g)) (Returned (w, h)) \<longleftrightarrow> v = w \<and> R g h"
| "same_outcome R (Raised e) (Raised e') \<longleftrightarrow> e = e'"
| "same_outcome R NonFinite NonFinite \<longleftrightarrow> True"
| "same_outcome R _ _ \<longleftrightarrow> False"

definition same_draws :: "('g \<Rightarrow> 'h \<Rightarrow> bool) \<Rightarrow> 'g generator \<Rightarrow> 'h generator \<Rightarrow> bool" where
  "same_draws R gen gen' \<longleftrightarrow>
     (\<forall>a b g h. R g h \<longrightarrow> same_outcome R (gen a b g) (gen' a b h))"

section \<open>The notebook over float64 values\<close>

text \<open>
  The model above computes over the reals, where nothing overflows and a run that meets
  \<open>inf\<close> or \<open>NaN\<close> is cut short. Whether a precision in the trace can fail to be positive
  turns on what float64 does there, so the samplers and the driver are modelled a second
  time over float64 values: a finite value, \<open>+inf\<close>, \<open>-inf\<close> or \<open>NaN\<close>. A finite result
  whose magnitude is beyond the largest float64 becomes an infinity; division by zero,
  \<open>inf - inf\<close>, \<open>0 * inf\<close> and the square root of a negative number follow IEEE 754;
  \<open>NaN\<close> and the infinities are carried on as the code carries them, and nothing is cut
  short. Finite results are not rounded and zero has no sign.
\<close>

subsection \<open>float64 arithmetic\<close>

datatype f64 = Fin real | PInf | NInf | NaN

definition max_float :: real where
  "max_float = (2 ^ 53 - 1) * 2 ^ 971"

definition rnd :: "real \<Rightarrow> f64" where
  "rnd r = (if max_float < r then PInf else if r < - max_float then NInf else Fin r)"




fun fmul :: "f64 \<Rightarrow> f64 \<Rightarrow> f64" where
  "fmul (Fin a) (Fin b) = rnd (a * b)"
| "fmul NaN _ = NaN"
| "fmul _ NaN = NaN"
| "fmul (Fin a) PInf = (if a = 0 then NaN else if 0 < a then PInf else NInf)"
| "fmul (Fin a) NInf = (if a = 0 then NaN else if 0 < a then NInf else PInf)"
| "fmul PInf (Fin b) = (if b = 0 then NaN else if 0 < b then PInf else NInf)"
| "fmul NInf (Fin b) = (if b = 0 then NaN else if 0 < b then NInf else PInf)"
| "fmul PInf PInf = PInf"
| "fmul PInf NInf = NInf"
| "fmul NInf PInf = NInf"
| "fmul NInf NInf = PInf"





fun f64_neg :: "f64 \<Rightarrow> bool" where
  "f64_neg (Fin a) \<longleftrightarrow> a < 0"
| "f64_neg NInf \<longleftrightarrow> True"
| "f64_neg _ \<longleftrightarrow> False"


subsection \<open>The samplers and the driver over float64\<close>

type_synonym 'g generator64 = "f64 \<Rightarrow> f64 \<Rightarrow> 'g \<Rightarrow> (f64 \<times> 'g) outcome"










subsection \<open>The generators over float64\<close>


definition normal_accepts_f64 :: "'g generator64 \<Rightarrow> bool" where
  "normal_accepts_f64 nrm \<longleftrightarrow>
     (\<forall>loc scale g. \<not> f64_neg scale \<longrightarrow> (\<exists>v g'. nrm loc scale g = Returned (v, g')))"

definition gamma_accepts_f64 :: "'g generator64 \<Rightarrow> bool" where
  "gamma_accepts_f64 gam \<longleftrightarrow>
     (\<forall>shape scale g. \<not> f64_neg shape \<and> \<not> f64_neg scale \<longrightarrow>
        (\<exists>v g'. gam shape scale g = Returned (v, g')))"

text \<open>
  The degenerate random source over float64: every draw is the mean of the requested
  distribution, and a negative scale or shape raises \<open>ValueError\<close>.
\<close>

definition mean_normal_f64 :: "nat generator64" where
  "mean_normal_f64 loc scale g =
     (if f64_neg scale then Raised ValueError else Returned (loc, Suc g))"

definition mean_gamma_f64 :: "nat generator64" where
  "mean_gamma_f64 shape scale g =
     (if f64_neg shape \<or> f64_neg scale then Raised ValueError
      else Returned (fmul shape scale, Suc g))"

section \<open>Properties\<close>

subsection \<open>Auxiliary facts\<close>

lemma obind_Returned: "obind m f = Returned r \<longleftrightarrow> (\<exists>v. m = Returned v \<and> f v = Returned r)"
  by (cases m) auto

lemma np_binop_same: "length a = length b \<Longrightarrow> np_binop f a b = Returned (map2 f a b)"
  by (simp add: np_binop_def)

lemma np_binop_square: "np_binop (*) r r = Returned (map (\<lambda>v. v * v) r)"
  by (simp add: np_binop_def zip_same_conv_map)

lemma sum_list_map2_nth:
  "length a = length b \<Longrightarrow> sum_list (map2 f a b) = (\<Sum>i<length a. f (a ! i) (b ! i))"
  by (simp add: sum_list_sum_nth atLeast0LessThan)

lemma sum_list_squares_nonneg: "0 \<le> sum_list (map (\<lambda>v. v * v) (r :: real list))"
  by (rule sum_list_nonneg) auto

lemma sum_list_squares_nth:
  "sum_list (map (\<lambda>v. v * v) (r :: real list)) = (\<Sum>i<length r. (r ! i)\<^sup>2)"
  by (simp add: sum_list_sum_nth atLeast0LessThan power2_eq_square)

lemma sample_beta_0_run:
  assumes "length x = length y" "0 < tau_0 + tau * real (length y)"
  shows "sample_beta_0 nrm y x beta_1 tau mu_0 tau_0 g =
     nrm ((tau_0 * mu_0 + tau * (\<Sum>i<length y. y ! i - beta_1 * x ! i)) / (tau_0 + tau * real (length y)))
         (1 / sqrt (tau_0 + tau * real (length y))) g"
  using assms by (simp add: sample_beta_0_def Let_def np_binop_same sum_list_map2_nth)

lemma sample_beta_1_run:
  assumes "length x = length y" "0 < tau_1 + tau * (\<Sum>i<length y. (x ! i)\<^sup>2)"
  shows "sample_beta_1 nrm y x beta_0 tau mu_1 tau_1 g =
     nrm ((tau_1 * mu_1 + tau * (\<Sum>i<length y. (y ! i - beta_0) * x ! i)) / (tau_1 + tau * (\<Sum>i<length y. (x ! i)\<^sup>2)))
         (1 / sqrt (tau_1 + tau * (\<Sum>i<length y. (x ! i)\<^sup>2))) g"
  using assms
  by (simp add: sample_beta_1_def Let_def np_binop_square np_binop_same sum_list_map2_nth
      sum_list_squares_nth)

lemma sample_tau_run:
  assumes "length x = length y"
    and "beta + (\<Sum>i<length y. (y ! i - beta_0 - beta_1 * x ! i)\<^sup>2) / 2 \<noteq> 0"
  shows "sample_tau gam y x beta_0 beta_1 alpha beta g =
     gam (alpha + real (length y) / 2)
         (1 / (beta + (\<Sum>i<length y. (y ! i - beta_0 - beta_1 * x ! i)\<^sup>2) / 2)) g"
proof -
  have rss: "sum_list (map (\<lambda>v. v * v) (map2 (-) (map (\<lambda>v. v - beta_0) y) (map ((*) beta_1) x))) =
             (\<Sum>i<length y. (y ! i - beta_0 - beta_1 * x ! i)\<^sup>2)"
    using assms(1) by (simp add: sum_list_sum_nth atLeast0LessThan power2_eq_square)
  show ?thesis
    using assms unfolding sample_tau_def Let_def
    by (simp only: np_binop_same length_map obind.simps np_binop_square rss if_False)
qed

lemma sample_beta_0_returns:
  assumes "normal_contract nrm" "length x = length y" "0 < tau_0 + tau * real (length y)"
  shows "\<exists>v g'. sample_beta_0 nrm y x beta_1 tau mu_0 tau_0 g = Returned (v, g')"
  using assms by (simp add: sample_beta_0_run normal_contract_def)

lemma sample_beta_1_returns:
  assumes "normal_contract nrm" "length x = length y"
    and "0 < tau_1 + tau * (\<Sum>i<length y. (x ! i)\<^sup>2)"
  shows "\<exists>v g'. sample_beta_1 nrm y x beta_0 tau mu_1 tau_1 g = Returned (v, g')"
  using assms by (simp add: sample_beta_1_run normal_contract_def)

lemma sample_tau_returns:
  assumes "gamma_contract gam" "length x = length y"
    and "0 < alpha + real (length y) / 2"
    and "0 < beta + (\<Sum>i<length y. (y ! i - beta_0 - beta_1 * x ! i)\<^sup>2) / 2"
  shows "\<exists>v g'. sample_tau gam y x beta_0 beta_1 alpha beta g = Returned (v, g') \<and> 0 < v"
proof -
  let ?rate = "beta + (\<Sum>i<length y. (y ! i - beta_0 - beta_1 * x ! i)\<^sup>2) / 2"
  have "sample_tau gam y x beta_0 beta_1 alpha beta g =
        gam (alpha + real (length y) / 2) (1 / ?rate) g"
    using assms(2,4) by (intro sample_tau_run) auto
  moreover have "0 < 1 / ?rate"
    using assms(4) by simp
  ultimately show ?thesis
    using assms(1,3) unfolding gamma_contract_def by simp
qed

lemma lookup_Some: "d k = Some v \<Longrightarrow> lookup d k = Returned v"
  by (simp add: lookup_def)

lemma gibbs_loop_length:
  "gibbs_loop nrm gam y x hypers its st T g = Returned (trace, g') \<Longrightarrow> length trace = length T"
proof (induction its arbitrary: st T g)
  case Nil
  then show ?case by (cases st) simp
next
  case (Cons it its)
  obtain b0 b1 t where st: "st = (b0, b1, t)"
    by (cases st)
  from Cons.prems obtain st' row g3 where
    "gibbs_loop nrm gam y x hypers its st' (T[it := row]) g3 = Returned (trace, g')"
    unfolding st by (auto simp: obind_Returned)
  from Cons.IH [OF this] show ?case by simp
qed

lemma gibbs_loop_returns:
  assumes "normal_contract nrm" "gamma_contract gam" "length x = length y"
    and "hypers ''mu_0'' = Some mu_0" "hypers ''tau_0'' = Some tau_0"
    and "hypers ''mu_1'' = Some mu_1" "hypers ''tau_1'' = Some tau_1"
    and "hypers ''alpha'' = Some alpha" "hypers ''beta'' = Some beta"
    and "0 < tau_0" "0 < tau_1" "0 < alpha" "0 < beta"
  shows "0 < tau \<Longrightarrow>
         \<exists>trace g'. gibbs_loop nrm gam y x hypers its (beta_0, beta_1, tau) T g = Returned (trace, g')"
proof (induction its arbitrary: beta_0 beta_1 tau T g)
  case Nil
  then show ?case by simp
next
  case (Cons it its)
  have "0 < tau_0 + tau * real (length y)"
    using Cons.prems assms(10) by (simp add: add_pos_nonneg)
  from sample_beta_0_returns [OF assms(1,3) this]
  obtain b0' g1 where d0: "sample_beta_0 nrm y x beta_1 tau mu_0 tau_0 g = Returned (b0', g1)"
    by blast
  have "0 < tau_1 + tau * (\<Sum>i<length y. (x ! i)\<^sup>2)"
    using Cons.prems assms(11) by (simp add: add_pos_nonneg sum_nonneg)
  from sample_beta_1_returns [OF assms(1,3) this]
  obtain b1' g2 where d1: "sample_beta_1 nrm y x b0' tau mu_1 tau_1 g1 = Returned (b1', g2)"
    by blast
  have shape: "0 < alpha + real (length y) / 2"
    using assms(12) by (simp add: add_pos_nonneg)
  have rate: "0 < beta + (\<Sum>i<length y. (y ! i - b0' - b1' * x ! i)\<^sup>2) / 2"
    using assms(13) by (simp add: add_pos_nonneg sum_nonneg)
  from sample_tau_returns [OF assms(2,3) shape rate]
  obtain t' g3 where d2: "sample_tau gam y x b0' b1' alpha beta g2 = Returned (t', g3)" and "0 < t'"
    by blast
  from Cons.IH [OF \<open>0 < t'\<close>] obtain trace g' where
    "gibbs_loop nrm gam y x hypers its (b0', b1', t') (T[it := (b0', b1', t')]) g3 = Returned (trace, g')"
    by blast
  then show ?case
    by (simp add: lookup_Some assms(4-9) d0 d1 d2)
qed

lemma gibbs_loop_spec:
  assumes "hypers ''mu_0'' = Some mu_0" "hypers ''tau_0'' = Some tau_0"
    and "hypers ''mu_1'' = Some mu_1" "hypers ''tau_1'' = Some tau_1"
    and "hypers ''alpha'' = Some alpha" "hypers ''beta'' = Some beta"
  shows "length T = i + k \<Longrightarrow>
         gibbs_loop nrm gam y x hypers [i..<i + k] st T g =
         run_gibbs_spec nrm gam y x mu_0 tau_0 mu_1 tau_1 alpha beta k st (take i T) g"
proof (induction k arbitrary: i st T g)
  case 0
  then show ?case by (cases st) simp
next
  case (Suc k)
  obtain b0 b1 t where st: "st = (b0, b1, t)"
    by (cases st)
  have upt: "[i..<i + Suc k] = i # [Suc i..<Suc i + k]"
    by (simp add: upt_conv_Cons)
  have step: "gibbs_loop nrm gam y x hypers [Suc i..<Suc i + k] st' (T[i := row]) =
              run_gibbs_spec nrm gam y x mu_0 tau_0 mu_1 tau_1 alpha beta k st' (take i T @ [row])"
    for st' row
  proof (rule ext)
    fix g3
    show "gibbs_loop nrm gam y x hypers [Suc i..<Suc i + k] st' (T[i := row]) g3 =
          run_gibbs_spec nrm gam y x mu_0 tau_0 mu_1 tau_1 alpha beta k st' (take i T @ [row]) g3"
      using Suc.IH [of "T[i := row]" "Suc i" st' g3] Suc.prems
      by (simp add: take_Suc_conv_app_nth)
  qed
  show ?case
    unfolding st upt
    by (simp only: gibbs_loop.simps run_gibbs_spec.simps lookup_Some assms obind.simps step)
qed

lemma mean_normal_contract: "normal_contract mean_normal"
  by (simp add: normal_contract_def mean_normal_def)

lemma mean_gamma_contract: "gamma_contract mean_gamma"
  by (simp add: gamma_contract_def mean_gamma_def)

lemma gibbs_unfold:
  assumes "length y = length x" "0 \<le> K"
    and "init ''beta_0'' = Some b0" "init ''beta_1'' = Some b1" "init ''tau'' = Some t"
  shows "gibbs nrm gam y x K init hypers g =
         gibbs_loop nrm gam y x hypers [0..<0 + nat K] (b0, b1, t) (replicate (nat K) (0, 0, 0)) g"
  using assms by (simp add: gibbs_def lookup_Some)

lemma hypers_dict_keys:
  "hypers_dict ''mu_0'' = Some 0" "hypers_dict ''tau_0'' = Some 1"
  "hypers_dict ''mu_1'' = Some 0" "hypers_dict ''tau_1'' = Some 1"
  "hypers_dict ''alpha'' = Some 2" "hypers_dict ''beta'' = Some 1"
  by (simp_all add: hypers_dict_def)

lemma init_dict_keys:
  "init_dict ''beta_0'' = Some 0" "init_dict ''beta_1'' = Some 0" "init_dict ''tau'' = Some 2"
  by (simp_all add: init_dict_def)

lemma example_run:
  "run_gibbs_spec mean_normal mean_gamma [1] [0] 0 1 0 1 2 1 (Suc (Suc 0)) (0, 0, 2) [] (0 :: nat) =
   Returned ([(2 / 3, 0, 45 / 19), (45 / 64, 0, 20480 / 8553)], 6)"
  by (simp add: sample_beta_0_def sample_beta_1_def sample_tau_def np_binop_def
      mean_normal_def mean_gamma_def)

subsection \<open>The conditional posteriors\<close>

text \<open>
  C1. With observation arrays of equal length N, \<open>sample_tau\<close> calls the gamma generator,
  which takes a shape and a scale, with the shape \<open>alpha + N/2\<close> and with the scale
  \<open>1 / (beta + (\<Sum>i. (y_i - beta_0 - beta_1 * x_i)\<^sup>2) / 2)\<close>, the reciprocal of the
  posterior rate and not the rate itself; the draw it returns is the generator's. The
  reciprocal is a real number when the posterior rate is not zero.
\<close>

theorem sample_tau_posterior:
  assumes "length x = length y"
    and "beta + (\<Sum>i<length y. (y ! i - beta_0 - beta_1 * x ! i)\<^sup>2) / 2 \<noteq> 0"
  shows "sample_tau gam y x beta_0 beta_1 alpha beta g =
     gam (alpha + real (length y) / 2)
         (1 / (beta + (\<Sum>i<length y. (y ! i - beta_0 - beta_1 * x ! i)\<^sup>2) / 2)) g"
  using assms by (rule sample_tau_run)

theorem sample_tau_posterior_witness:
  "length [0, 1 :: real] = length [1, 2 :: real] \<and>
   1 + (\<Sum>i<length [1, 2 :: real]. ([1, 2] ! i - 0 - 1 * [0, 1] ! i)\<^sup>2) / 2 \<noteq> (0 :: real) \<and>
   sample_tau mean_gamma [1, 2] [0, 1] 0 1 2 1 0 = mean_gamma 3 (1 / 2) 0 \<and>
   sample_tau mean_gamma [1, 2] [0, 1] 0 1 2 1 0 = Returned (3 / 2, 1)"
proof -
  have len: "length [0, 1 :: real] = length [1, 2 :: real]"
    by simp
  have rss: "(\<Sum>i<length [1, 2 :: real]. ([1, 2] ! i - 0 - 1 * [0, 1] ! i)\<^sup>2) = (2 :: real)"
    by (simp add: lessThan_Suc numeral_2_eq_2)
  have rate: "1 + (\<Sum>i<length [1, 2 :: real]. ([1, 2] ! i - 0 - 1 * [0, 1] ! i)\<^sup>2) / 2 \<noteq> (0 :: real)"
    unfolding rss by simp
  show ?thesis
    using sample_tau_posterior [of "[0, 1]" "[1, 2]" 1 0 1 mean_gamma 2 0, OF len rate] len rate
    unfolding rss by (simp add: mean_gamma_def)
qed

text \<open>
  C4. With observation arrays of equal length N and a positive posterior precision
  \<open>tau_0 + tau * N\<close>, \<open>sample_beta_0\<close> calls the normal generator with the mean
  \<open>(tau_0 * mu_0 + tau * (\<Sum>i. y_i - beta_1 * x_i)) / (tau_0 + tau * N)\<close> and the standard
  deviation \<open>1 / sqrt (tau_0 + tau * N)\<close>. For the single observation \<open>x = 0\<close>, \<open>y = 0\<close> with
  \<open>tau_0 = 1\<close>, \<open>mu_0 = 0\<close>, \<open>tau = 1\<close> and \<open>beta_1 = 0\<close> the posterior precision is 2 and the
  posterior mean is 0.
\<close>

theorem sample_beta_0_posterior:
  assumes "length x = length y" and "0 < tau_0 + tau * real (length y)"
  shows "sample_beta_0 nrm y x beta_1 tau mu_0 tau_0 g =
           nrm ((tau_0 * mu_0 + tau * (\<Sum>i<length y. y ! i - beta_1 * x ! i)) /
                  (tau_0 + tau * real (length y)))
               (1 / sqrt (tau_0 + tau * real (length y))) g \<and>
         sample_beta_0 nrm [0] [0] 0 1 0 1 g = nrm 0 (1 / sqrt 2) g"
proof
  show "sample_beta_0 nrm y x beta_1 tau mu_0 tau_0 g =
           nrm ((tau_0 * mu_0 + tau * (\<Sum>i<length y. y ! i - beta_1 * x ! i)) /
                  (tau_0 + tau * real (length y)))
               (1 / sqrt (tau_0 + tau * real (length y))) g"
    using assms by (rule sample_beta_0_run)
  show "sample_beta_0 nrm [0] [0] 0 1 0 1 g = nrm 0 (1 / sqrt 2) g"
    by (simp add: sample_beta_0_def np_binop_def)
qed

theorem sample_beta_0_posterior_witness:
  "length [0, 1 :: real] = length [1, 2 :: real] \<and>
   (0 :: real) < 1 + 2 * real (length [1, 2 :: real]) \<and>
   sample_beta_0 mean_normal [1, 2] [0, 1] 0 2 0 1 0 = mean_normal (6 / 5) (1 / sqrt 5) 0 \<and>
   sample_beta_0 mean_normal [1, 2] [0, 1] 0 2 0 1 0 = Returned (6 / 5, 1)"
proof -
  have len: "length [0, 1 :: real] = length [1, 2 :: real]"
    by simp
  have prec: "(0 :: real) < 1 + 2 * real (length [1, 2 :: real])"
    by simp
  show ?thesis
    using sample_beta_0_posterior [of "[0, 1]" "[1, 2]" 1 2 mean_normal 0 0 0, OF len prec]
    by (simp add: lessThan_Suc numeral_2_eq_2 mean_normal_def)
qed

text \<open>
  C5. With observation arrays of equal length N and a positive posterior precision
  \<open>tau_1 + tau * (\<Sum>i. x_i\<^sup>2)\<close>, \<open>sample_beta_1\<close> calls the normal generator with the mean
  \<open>(tau_1 * mu_1 + tau * (\<Sum>i. (y_i - beta_0) * x_i)) / (tau_1 + tau * (\<Sum>i. x_i\<^sup>2))\<close> and
  the standard deviation \<open>1 / sqrt (tau_1 + tau * (\<Sum>i. x_i\<^sup>2))\<close>.
\<close>

theorem sample_beta_1_posterior:
  assumes "length x = length y" and "0 < tau_1 + tau * (\<Sum>i<length y. (x ! i)\<^sup>2)"
  shows "sample_beta_1 nrm y x beta_0 tau mu_1 tau_1 g =
           nrm ((tau_1 * mu_1 + tau * (\<Sum>i<length y. (y ! i - beta_0) * x ! i)) /
                  (tau_1 + tau * (\<Sum>i<length y. (x ! i)\<^sup>2)))
               (1 / sqrt (tau_1 + tau * (\<Sum>i<length y. (x ! i)\<^sup>2))) g"
  using assms by (rule sample_beta_1_run)

theorem sample_beta_1_posterior_witness:
  "length [0, 1 :: real] = length [1, 2 :: real] \<and>
   (0 :: real) < 1 + 2 * (\<Sum>i<length [1, 2 :: real]. ([0, 1] ! i)\<^sup>2) \<and>
   sample_beta_1 mean_normal [1, 2] [0, 1] (6 / 5) 2 0 1 0 = mean_normal (8 / 15) (1 / sqrt 3) 0 \<and>
   sample_beta_1 mean_normal [1, 2] [0, 1] (6 / 5) 2 0 1 0 = Returned (8 / 15, 1)"
proof -
  have len: "length [0, 1 :: real] = length [1, 2 :: real]"
    by simp
  have sq: "(\<Sum>i<length [1, 2 :: real]. ([0, 1 :: real] ! i)\<^sup>2) = 1"
    by (simp add: lessThan_Suc numeral_2_eq_2)
  have prec: "(0 :: real) < 1 + 2 * (\<Sum>i<length [1, 2 :: real]. ([0, 1] ! i)\<^sup>2)"
    unfolding sq by simp
  show ?thesis
    using sample_beta_1_posterior [of "[0, 1]" "[1, 2]" 1 2 mean_normal "6 / 5" 0 0, OF len prec]
      prec
    unfolding sq by (simp add: lessThan_Suc numeral_2_eq_2 mean_normal_def)
qed

subsection \<open>The driver\<close>

text \<open>
  C2. For observation arrays of equal length, an iteration count \<open>K > 0\<close>, an initial state
  and hyperparameters that hold every key, \<open>gibbs\<close> is the specification's state machine
  run for K iterations from the initial state with an empty trace: each iteration draws
  the intercept from the previous slope and precision, then the slope from the new
  intercept and the previous precision, then the precision from the new intercept and
  slope, and appends the triple. A trace it returns has exactly K rows, and with positive
  prior precisions, Gamma parameters and initial precision, and generators that keep
  their contract, it does return one.
\<close>

theorem gibbs_iterates_in_order:
  assumes "length y = length x" and "0 < K"
    and "init ''beta_0'' = Some b0" "init ''beta_1'' = Some b1" "init ''tau'' = Some t"
    and "hypers ''mu_0'' = Some mu_0" "hypers ''tau_0'' = Some tau_0"
    and "hypers ''mu_1'' = Some mu_1" "hypers ''tau_1'' = Some tau_1"
    and "hypers ''alpha'' = Some alpha" "hypers ''beta'' = Some beta"
  shows "gibbs nrm gam y x K init hypers g =
           run_gibbs_spec nrm gam y x mu_0 tau_0 mu_1 tau_1 alpha beta (nat K) (b0, b1, t) [] g \<and>
         (\<forall>trace g'. gibbs nrm gam y x K init hypers g = Returned (trace, g') \<longrightarrow>
            length trace = nat K) \<and>
         (normal_contract nrm \<and> gamma_contract gam \<and>
          0 < t \<and> 0 < tau_0 \<and> 0 < tau_1 \<and> 0 < alpha \<and> 0 < beta \<longrightarrow>
            (\<exists>trace g'. gibbs nrm gam y x K init hypers g = Returned (trace, g')))"
proof -
  let ?zeros = "replicate (nat K) (0, 0, 0) :: row list"
  have run: "gibbs nrm gam y x K init hypers g =
             gibbs_loop nrm gam y x hypers [0..<0 + nat K] (b0, b1, t) ?zeros g"
    using assms(1-5) by (intro gibbs_unfold) simp_all
  have "gibbs_loop nrm gam y x hypers [0..<0 + nat K] (b0, b1, t) ?zeros g =
        run_gibbs_spec nrm gam y x mu_0 tau_0 mu_1 tau_1 alpha beta (nat K) (b0, b1, t)
          (take 0 ?zeros) g"
    using assms(6-11) by (intro gibbs_loop_spec) simp_all
  then have spec: "gibbs nrm gam y x K init hypers g =
      run_gibbs_spec nrm gam y x mu_0 tau_0 mu_1 tau_1 alpha beta (nat K) (b0, b1, t) [] g"
    using run by simp
  have len: "length trace = nat K"
    if "gibbs nrm gam y x K init hypers g = Returned (trace, g')" for trace g'
    using gibbs_loop_length [of nrm gam y x hypers "[0..<0 + nat K]" "(b0, b1, t)" ?zeros g trace g']
      that run by simp
  have ret: "\<exists>trace g'. gibbs nrm gam y x K init hypers g = Returned (trace, g')"
    if "normal_contract nrm" "gamma_contract gam" "0 < t" "0 < tau_0" "0 < tau_1"
      "0 < alpha" "0 < beta"
    unfolding run
    by (rule gibbs_loop_returns [OF that(1,2) assms(1) [symmetric] assms(6-11) that(4-7) that(3)])
  from spec len ret show ?thesis
    by blast
qed

theorem gibbs_iterates_in_order_witness:
  "length [1 :: real] = length [0 :: real] \<and> (0 :: int) < 2 \<and>
   init_dict ''beta_0'' = Some 0 \<and> init_dict ''beta_1'' = Some 0 \<and> init_dict ''tau'' = Some 2 \<and>
   hypers_dict ''mu_0'' = Some 0 \<and> hypers_dict ''tau_0'' = Some 1 \<and>
   hypers_dict ''mu_1'' = Some 0 \<and> hypers_dict ''tau_1'' = Some 1 \<and>
   hypers_dict ''alpha'' = Some 2 \<and> hypers_dict ''beta'' = Some 1 \<and>
   normal_contract mean_normal \<and> gamma_contract mean_gamma \<and>
   gibbs mean_normal mean_gamma [1] [0] 2 init_dict hypers_dict (0 :: nat) =
     Returned ([(2 / 3, 0, 45 / 19), (45 / 64, 0, 20480 / 8553)], 6)"
proof -
  have len: "length [1 :: real] = length [0 :: real]"
    by simp
  have K: "(0 :: int) < 2"
    by simp
  have two: "nat 2 = Suc (Suc 0)"
    by simp
  show ?thesis
    using gibbs_iterates_in_order [OF len K init_dict_keys hypers_dict_keys,
        of mean_normal mean_gamma 0]
    unfolding two example_run
    by (simp add: init_dict_keys hypers_dict_keys mean_normal_contract mean_gamma_contract)
qed

text \<open>
  C10. With an iteration count of 0, observation arrays of equal length and an initial
  state that holds its three keys, \<open>gibbs\<close> raises nothing and returns the empty trace,
  without a draw and whatever \<open>hypers\<close> holds.
\<close>

theorem gibbs_zero_iterations:
  assumes "length y = length x"
    and "init ''beta_0'' = Some b0" "init ''beta_1'' = Some b1" "init ''tau'' = Some t"
  shows "gibbs nrm gam y x 0 init hypers g = Returned ([], g)"
  using assms by (simp add: gibbs_def lookup_Some)

theorem gibbs_zero_iterations_witness:
  "length [1, 2 :: real] = length [0, 1 :: real] \<and>
   init_dict ''beta_0'' = Some 0 \<and> init_dict ''beta_1'' = Some 0 \<and> init_dict ''tau'' = Some 2 \<and>
   gibbs mean_normal mean_gamma [1, 2] [0, 1] 0 init_dict Map.empty (0 :: nat) = Returned ([], 0)"
proof -
  have len: "length [1, 2 :: real] = length [0, 1 :: real]"
    by simp
  have keys: "init_dict ''beta_0'' = Some 0" "init_dict ''beta_1'' = Some 0"
    "init_dict ''tau'' = Some 2"
    by (simp_all add: init_dict_def)
  show ?thesis
    using gibbs_zero_iterations [OF len keys, of mean_normal mean_gamma Map.empty 0] len keys
    by simp
qed

subsection \<open>Failures\<close>

lemma sample_beta_0_asserts:
  "length x \<noteq> length y \<Longrightarrow> sample_beta_0 nrm y x beta_1 tau mu_0 tau_0 g = Raised AssertionError"
  by (simp add: sample_beta_0_def)

lemma sample_beta_1_asserts:
  "length x \<noteq> length y \<Longrightarrow> sample_beta_1 nrm y x beta_0 tau mu_1 tau_1 g = Raised AssertionError"
  by (simp add: sample_beta_1_def)

lemma sample_tau_not_broadcastable:
  "length x \<noteq> length y \<Longrightarrow> length x \<noteq> 1 \<Longrightarrow> length y \<noteq> 1 \<Longrightarrow>
   sample_tau gam y x beta_0 beta_1 alpha beta g = Raised ValueError"
  by (simp add: sample_tau_def np_binop_def)

text \<open>
  C3. On observation arrays of unequal length \<open>sample_beta_0\<close> and \<open>sample_beta_1\<close> fail
  their assertion, but \<open>sample_tau\<close> has no assertion: with \<open>y\<close> of length two and \<open>x\<close> of
  length one the residual broadcasts and \<open>sample_tau\<close> returns a draw.
\<close>

theorem sample_tau_unequal_lengths:
  "sample_beta_0 mean_normal [1, 2] [1] 0 1 0 1 0 = Raised AssertionError \<and>
   sample_beta_1 mean_normal [1, 2] [1] 0 1 0 1 0 = Raised AssertionError \<and>
   sample_tau mean_gamma [1, 2] [1] 0 0 2 1 0 = Returned (6 / 7, 1)"
  by (simp add: sample_beta_0_def sample_beta_1_def sample_tau_def np_binop_def mean_gamma_def)




subsection \<open>The two versions of the intercept sampler\<close>

text \<open>
  C8, as the claim states it, fails: with a scalar prior precision and prior mean the
  draft raises \<open>TypeError\<close> where the notebook's version returns a draw.
\<close>

theorem draft_scalar_counterexample:
  "sample_beta_0_draft mean_normal [0] [0] 0 1 (Scalar 1) (Scalar 0) 0 = Raised TypeError \<and>
   sample_beta_0 mean_normal [0] [0] 0 1 0 1 0 = Returned (0, 1)"
  by (simp add: sample_beta_0_draft_def sample_beta_0_def np_binop_def mean_normal_def)

text \<open>
  C8, amended. The draft rejects a scalar prior precision with \<open>TypeError\<close> once the length
  assertion has passed. Given the prior precision and the prior mean as arrays of length
  one, in its own order (\<open>tau_0\<close> before \<open>mu_0\<close>), it behaves as the notebook's version does
  for the scalars \<open>mu_0\<close> and \<open>tau_0\<close> on the same observations, slope, precision and
  random-source state: the same failure, or the same draw and next state, the draw
  returned as an array of length one.
\<close>

theorem draft_agrees_on_arrays:
  "(length x = length y \<longrightarrow>
      sample_beta_0_draft nrm y x beta_1 tau (Scalar tau_0) prior_mean g = Raised TypeError) \<and>
   sample_beta_0_draft nrm y x beta_1 tau (Array [tau_0]) (Array [mu_0]) g =
     obind (sample_beta_0 nrm y x beta_1 tau mu_0 tau_0 g) (\<lambda>(v, g'). Returned (Array [v], g'))"
proof
  show "length x = length y \<longrightarrow>
      sample_beta_0_draft nrm y x beta_1 tau (Scalar tau_0) prior_mean g = Raised TypeError"
    by (simp add: sample_beta_0_draft_def)
next
  show "sample_beta_0_draft nrm y x beta_1 tau (Array [tau_0]) (Array [mu_0]) g =
     obind (sample_beta_0 nrm y x beta_1 tau mu_0 tau_0 g) (\<lambda>(v, g'). Returned (Array [v], g'))"
  proof (cases "length x = length y")
    case False
    then show ?thesis
      by (simp add: sample_beta_0_draft_def sample_beta_0_def)
  next
    case True
    let ?p = "tau_0 + tau * real (length y)"
    let ?m = "(tau_0 * mu_0 + tau * sum_list (map2 (-) y (map ((*) beta_1) x))) / ?p"
    show ?thesis
    proof (cases "?p \<le> 0")
      case True
      with \<open>length x = length y\<close> show ?thesis
        by (simp add: sample_beta_0_draft_def sample_beta_0_def np_binop_def)
    next
      case False
      with \<open>length x = length y\<close> show ?thesis
        by (cases "nrm ?m (1 / sqrt ?p) g")
          (auto simp: sample_beta_0_draft_def sample_beta_0_def np_binop_def)
    qed
  qed
qed

theorem draft_agrees_on_arrays_witness:
  "length [0, 1 :: real] = length [1, 2 :: real] \<and>
   sample_beta_0_draft mean_normal [1, 2] [0, 1] 0 2 (Scalar 1) (Scalar 0) (0 :: nat) =
     Raised TypeError \<and>
   sample_beta_0_draft mean_normal [1, 2] [0, 1] 0 2 (Array [1]) (Array [0]) (0 :: nat) =
     Returned (Array [6 / 5], 1) \<and>
   sample_beta_0 mean_normal [1, 2] [0, 1] 0 2 0 1 (0 :: nat) = Returned (6 / 5, 1)"
proof -
  have run: "sample_beta_0 mean_normal [1, 2] [0, 1] 0 2 0 1 (0 :: nat) = Returned (6 / 5, 1)"
    by (simp add: sample_beta_0_def np_binop_def mean_normal_def)
  show ?thesis
    using draft_agrees_on_arrays [of "[0, 1]" "[1, 2]" mean_normal 0 2 1 "Scalar 0" 0 0]
    unfolding run by simp
qed

subsection \<open>Reproducibility\<close>

lemma same_outcome_eq: "same_outcome (=) (a :: ('a \<times> 'g) outcome) b \<longleftrightarrow> a = b"
  by (induction "(=) :: 'g \<Rightarrow> 'g \<Rightarrow> bool" a b rule: same_outcome.induct) auto

lemma same_outcome_obind:
  assumes "same_outcome R m m'"
    and "\<And>v g h. R g h \<Longrightarrow> same_outcome R (f (v, g)) (f' (v, h))"
  shows "same_outcome R (obind m f) (obind m' f')"
  using assms by (induction R m m' rule: same_outcome.induct) auto

lemma same_outcome_obind_pure:
  assumes "\<And>v. same_outcome R (f v) (f' v)"
  shows "same_outcome R (obind m f) (obind m f')"
  using assms by (cases m) auto

lemma sample_beta_0_same:
  assumes "same_draws R nrm nrm'" "R g h"
  shows "same_outcome R (sample_beta_0 nrm y x beta_1 tau mu_0 tau_0 g)
           (sample_beta_0 nrm' y x beta_1 tau mu_0 tau_0 h)"
  using assms
  by (auto simp: sample_beta_0_def Let_def same_draws_def intro!: same_outcome_obind_pure)

lemma sample_beta_1_same:
  assumes "same_draws R nrm nrm'" "R g h"
  shows "same_outcome R (sample_beta_1 nrm y x beta_0 tau mu_1 tau_1 g)
           (sample_beta_1 nrm' y x beta_0 tau mu_1 tau_1 h)"
  using assms
  by (auto simp: sample_beta_1_def Let_def same_draws_def intro!: same_outcome_obind_pure)

lemma sample_tau_same:
  assumes "same_draws R gam gam'" "R g h"
  shows "same_outcome R (sample_tau gam y x beta_0 beta_1 alpha beta g)
           (sample_tau gam' y x beta_0 beta_1 alpha beta h)"
  using assms
  by (auto simp: sample_tau_def Let_def same_draws_def intro!: same_outcome_obind_pure)

lemma gibbs_loop_same:
  assumes "same_draws R nrm nrm'" "same_draws R gam gam'"
  shows "R g h \<Longrightarrow>
         same_outcome R (gibbs_loop nrm gam y x hypers its st T g)
           (gibbs_loop nrm' gam' y x hypers its st T h)"
proof (induction its arbitrary: st T g h)
  case Nil
  then show ?case by (cases st) simp
next
  case (Cons it its)
  obtain b0 b1 t where st: "st = (b0, b1, t)"
    by (cases st)
  show ?case
    unfolding st gibbs_loop.simps
    by (intro same_outcome_obind_pure same_outcome_obind Cons.prems
        sample_beta_0_same [OF assms(1)] sample_beta_1_same [OF assms(1)]
        sample_tau_same [OF assms(2)] | simp add: Cons.IH)+
qed

lemma gibbs_same:
  assumes "same_draws R nrm nrm'" "same_draws R gam gam'" "R g h"
  shows "same_outcome R (gibbs nrm gam y x iters init hypers g)
           (gibbs nrm' gam' y x iters init hypers h)"
  unfolding gibbs_def
  by (auto intro!: same_outcome_obind_pure gibbs_loop_same [OF assms])

lemma same_draws_refl: "same_draws (=) gen gen"
  by (simp add: same_draws_def same_outcome_eq)

text \<open>
  C9. \<open>sample_beta_0\<close>, \<open>sample_beta_1\<close> and \<open>gibbs\<close> are functions of their parameters and
  of the state of the random source. Two runs on the same parameters, with random sources
  in corresponding states whose generators give the same draws from corresponding states
  and step to corresponding states, have the same outcome: the same error, or the same
  output with corresponding final states. Two runs with one random source started from
  the same state are the case where states correspond when they are equal.
\<close>

theorem samplers_reproducible:
  assumes "same_draws R nrm nrm'" and "same_draws R gam gam'" and "R g h"
  shows "same_outcome R (sample_beta_0 nrm y x beta_1 tau mu_0 tau_0 g)
           (sample_beta_0 nrm' y x beta_1 tau mu_0 tau_0 h) \<and>
         same_outcome R (sample_beta_1 nrm y x beta_0 tau mu_1 tau_1 g)
           (sample_beta_1 nrm' y x beta_0 tau mu_1 tau_1 h) \<and>
         same_outcome R (gibbs nrm gam y x iters init hypers g)
           (gibbs nrm' gam' y x iters init hypers h)"
  by (intro conjI sample_beta_0_same sample_beta_1_same gibbs_same assms)

theorem samplers_reproducible_witness:
  "gibbs mean_normal mean_gamma [1] [0] 2 init_dict hypers_dict (0 :: nat) =
     Returned ([(2 / 3, 0, 45 / 19), (45 / 64, 0, 20480 / 8553)], 6) \<and>
   gibbs mean_normal mean_gamma [1] [0] 2 init_dict hypers_dict (10 :: nat) =
     Returned ([(2 / 3, 0, 45 / 19), (45 / 64, 0, 20480 / 8553)], 16)"
proof -
  let ?R = "\<lambda>g h :: nat. h = g + 10"
  have run: "gibbs mean_normal mean_gamma [1] [0] 2 init_dict hypers_dict (0 :: nat) =
     Returned ([(2 / 3, 0, 45 / 19), (45 / 64, 0, 20480 / 8553)], 6)"
    by (simp add: gibbs_def lookup_Some init_dict_keys hypers_dict_keys upt_rec numeral_2_eq_2
        sample_beta_0_def sample_beta_1_def sample_tau_def np_binop_def
        mean_normal_def mean_gamma_def)
  have nrm: "same_draws ?R mean_normal mean_normal"
    by (simp add: same_draws_def mean_normal_def)
  have gam: "same_draws ?R mean_gamma mean_gamma"
    by (simp add: same_draws_def mean_gamma_def)
  have start: "?R 0 10"
    by simp
  from samplers_reproducible [OF nrm gam start, where y = "[1]" and x = "[0]" and iters = 2
      and init = init_dict and hypers = hypers_dict]
  have "same_outcome ?R
          (Returned ([(2 / 3, 0, 45 / 19), (45 / 64, 0, 20480 / 8553)], 6))
          (gibbs mean_normal mean_gamma [1] [0] 2 init_dict hypers_dict 10)"
    unfolding run by simp
  then have "gibbs mean_normal mean_gamma [1] [0] 2 init_dict hypers_dict (10 :: nat) =
     Returned ([(2 / 3, 0, 45 / 19), (45 / 64, 0, 20480 / 8553)], 16)"
    by (cases "gibbs mean_normal mean_gamma [1] [0] 2 init_dict hypers_dict (10 :: nat)") auto
  with run show ?thesis
    by simp
qed

section \<open>Properties over float64\<close>

subsection \<open>float64 facts\<close>

















subsection \<open>The precision sampler over float64\<close>










subsection \<open>The driver over float64\<close>






lemma mean_normal_f64_accepts: "normal_accepts_f64 mean_normal_f64"
  by (simp add: normal_accepts_f64_def mean_normal_f64_def)

lemma mean_gamma_f64_accepts: "gamma_accepts_f64 mean_gamma_f64"
  by (simp add: gamma_accepts_f64_def mean_gamma_f64_def)








end
